theory Spec2Isabelle
  imports Complex_Main
begin

section \<open>Python values used by budget.py\<close>

text \<open>
  \<^verbatim>\<open>Number = Union[int, float]\<close>.  An \<open>int\<close> is Python's unbounded integer.  A
  \<open>float\<close> is represented by the rational number it denotes, and arithmetic on it is
  exact: binary64 rounding, signed zeros, infinities and NaN are outside this model, and
  the literal \<open>0.1\<close> denotes one tenth.  The statements below are therefore exact
  where only ints are involved and idealised wherever a float takes part.
\<close>

datatype number = PyInt int | PyFloat rat

fun val :: "number \<Rightarrow> rat" where
  "val (PyInt n) = of_int n"
| "val (PyFloat x) = x"

text \<open>\<open>a + b\<close> and \<open>a * b\<close>: an int only when both operands are ints.\<close>

fun py_add :: "number \<Rightarrow> number \<Rightarrow> number" where
  "py_add (PyInt a) (PyInt b) = PyInt (a + b)"
| "py_add a b = PyFloat (val a + val b)"

fun py_mul :: "number \<Rightarrow> number \<Rightarrow> number" where
  "py_mul (PyInt a) (PyInt b) = PyInt (a * b)"
| "py_mul a b = PyFloat (val a * val b)"

definition py_le :: "number \<Rightarrow> number \<Rightarrow> bool" where
  "py_le a b = (val a \<le> val b)"

definition py_lt :: "number \<Rightarrow> number \<Rightarrow> bool" where
  "py_lt a b = (val a < val b)"

datatype error = TypeError | ZeroDivisionError | IndexError

text \<open>\<open>a / b\<close> is true division: the result is a float, and a zero divisor raises.\<close>

definition py_truediv :: "number \<Rightarrow> number \<Rightarrow> error + number" where
  "py_truediv a b = (if val b = 0 then Inl ZeroDivisionError else Inr (PyFloat (val a / val b)))"

text \<open>\<open>int(x)\<close> truncates towards zero; \<open>math.floor(x)\<close> rounds down.\<close>

definition trunc :: "rat \<Rightarrow> int" where
  "trunc x = (if x < 0 then \<lceil>x\<rceil> else \<lfloor>x\<rfloor>)"

fun py_int :: "number \<Rightarrow> int" where
  "py_int (PyInt n) = n"
| "py_int (PyFloat x) = trunc x"

definition math_floor :: "number \<Rightarrow> int" where
  "math_floor x = \<lfloor>val x\<rfloor>"

text \<open>
  \<open>reduce(f, xs)\<close> without an initial value folds from the first element and raises
  \<open>TypeError\<close> on an empty sequence.
\<close>

definition reduce :: "('a \<Rightarrow> 'a \<Rightarrow> 'a) \<Rightarrow> 'a list \<Rightarrow> error + 'a" where
  "reduce f xs = (case xs of [] \<Rightarrow> Inl TypeError | x # ys \<Rightarrow> Inr (foldl f x ys))"

section \<open>Category\<close>

text \<open>A ledger entry is the dictionary \<open>{"amount": .., "description": ..}\<close>.\<close>

record entry =
  amount :: number
  description :: string

record category =
  category_name :: string
  ledger :: "entry list"

definition Category :: "string \<Rightarrow> category" where
  "Category name = \<lparr>category_name = name, ledger = []\<rparr>"

definition get_balance :: "category \<Rightarrow> error + number" where
  "get_balance c = reduce py_add (map amount (ledger c))"

definition check_funds :: "category \<Rightarrow> number \<Rightarrow> error + bool" where
  "check_funds c a = (case get_balance c of Inl e \<Rightarrow> Inl e | Inr b \<Rightarrow> Inr (py_le a b))"

definition deposit :: "category \<Rightarrow> number \<Rightarrow> string \<Rightarrow> category" where
  "deposit c a d = c\<lparr>ledger := ledger c @ [\<lparr>amount = a, description = d\<rparr>]\<rparr>"

text \<open>\<open>withdraw\<close> returns its boolean result together with the updated object.\<close>

definition withdraw :: "category \<Rightarrow> number \<Rightarrow> string \<Rightarrow> error + (bool \<times> category)" where
  "withdraw c a d =
     (case check_funds c a of
        Inl e \<Rightarrow> Inl e
      | Inr ok \<Rightarrow>
          if ok
          then Inr (True, c\<lparr>ledger := ledger c @ [\<lparr>amount = py_mul a (PyInt (- 1)), description = d\<rparr>]\<rparr>)
          else Inr (False, c))"

text \<open>
  \<open>transfer\<close> touches two objects that may be one and the same (\<open>c.transfer(x, c)\<close>),
  so it works on a store of objects addressed by reference.
\<close>

type_synonym store = "nat \<Rightarrow> category"

definition transfer :: "store \<Rightarrow> nat \<Rightarrow> number \<Rightarrow> nat \<Rightarrow> error + (bool \<times> store)" where
  "transfer h self a cat =
     (case withdraw (h self) a (''Transfer to '' @ category_name (h cat)) of
        Inl e \<Rightarrow> Inl e
      | Inr (ok, c') \<Rightarrow>
          (let h1 = h(self := c') in
           if ok
           then Inr (True, h1(cat := deposit (h1 cat) a (''Transfer from '' @ category_name (h1 self))))
           else Inr (False, h1)))"

section \<open>String rendering of a Category\<close>

abbreviation nl :: string where
  "nl \<equiv> [CHR 0x0A]"

definition digit_char :: "nat \<Rightarrow> char" where
  "digit_char d = ''0123456789'' ! d"

fun str_nat :: "nat \<Rightarrow> string" where
  "str_nat n = (if n < 10 then [digit_char n] else str_nat (n div 10) @ [digit_char (n mod 10)])"

text \<open>Rounding of a non-negative number to the nearest integer, ties to the even one.\<close>

definition round_half_even :: "rat \<Rightarrow> nat" where
  "round_half_even q =
     (let f = nat \<lfloor>q\<rfloor>; d = q - of_int \<lfloor>q\<rfloor>
      in if d < 1 / 2 then f else if 1 / 2 < d then f + 1 else if even f then f else f + 1)"

text \<open>
  \<open>f"{x:.2f}"\<close>: sign, integer digits, a point and two decimals of the value rounded
  to hundredths.  A negative value keeps its sign even when it rounds to zero.  An int is
  formatted through its float value, here through its exact value.
\<close>

definition format_2f :: "number \<Rightarrow> string" where
  "format_2f x =
     (let c = round_half_even (\<bar>val x\<bar> * 100)
      in (if val x < 0 then ''-'' else '''') @ str_nat (c div 100) @ ''.''
         @ [digit_char (c mod 100 div 10), digit_char (c mod 10)])"

text \<open>
  \<open>f"{x}"\<close>, that is \<open>str(x)\<close>: the decimal digits of an int.  The text of a float is
  its shortest round-tripping decimal, which depends on the binary64 value; it is the
  parameter \<open>float_repr\<close>.
\<close>

fun py_str :: "(rat \<Rightarrow> string) \<Rightarrow> number \<Rightarrow> string" where
  "py_str float_repr (PyInt n) = (if n < 0 then ''-'' else '''') @ str_nat (nat \<bar>n\<bar>)"
| "py_str float_repr (PyFloat x) = float_repr x"

text \<open>\<open>'*' * n\<close> and \<open>' ' * n\<close>: a negative count gives the empty string.\<close>

definition str_times :: "char \<Rightarrow> int \<Rightarrow> string" where
  "str_times ch n = replicate (nat n) ch"

definition format_header :: "string \<Rightarrow> string" where
  "format_header name =
     (let left_star_multiplier = trunc ((30 - of_nat (length name)) / 2);
          right_star_multiplier = 30 - int (length name) - left_star_multiplier
      in str_times CHR ''*'' left_star_multiplier @ name @ str_times CHR ''*'' right_star_multiplier)"

definition format_ledger_entry :: "entry \<Rightarrow> string" where
  "format_ledger_entry e =
     (let descr = take 23 (description e);
          amnt = format_2f (amount e);
          space_multiplier = 30 - int (length amnt) - int (length descr)
      in descr @ str_times CHR '' '' space_multiplier @ amnt)"

definition format_total :: "(rat \<Rightarrow> string) \<Rightarrow> number \<Rightarrow> string" where
  "format_total float_repr a = ''Total: '' @ py_str float_repr a"

text \<open>\<open>Category.__str__\<close>.\<close>

definition category_str :: "(rat \<Rightarrow> string) \<Rightarrow> category \<Rightarrow> error + string" where
  "category_str float_repr c =
     (let result = foldl (\<lambda>r e. r @ format_ledger_entry e @ nl)
                     (format_header (category_name c) @ nl) (ledger c)
      in case get_balance c of
           Inl e \<Rightarrow> Inl e
         | Inr b \<Rightarrow> Inr (result @ format_total float_repr b))"

section \<open>The spend chart\<close>

definition calculate_category_withdraw :: "category \<Rightarrow> number" where
  "calculate_category_withdraw c =
     foldl (\<lambda>w e. if py_lt (amount e) (PyInt 0) then py_add w (py_mul (amount e) (PyInt (- 1))) else w)
       (PyFloat 0) (ledger c)"

text \<open>Dividing by the literal \<open>0.1\<close> cannot raise.\<close>

definition round_down_nearest_ten :: "int \<Rightarrow> int" where
  "round_down_nearest_ten v =
     py_int (PyFloat (of_int (math_floor (py_mul (PyInt v) (PyFloat (1 / 10)))) / (1 / 10)))"

definition resolve_percentage :: "number \<Rightarrow> number \<Rightarrow> error + int" where
  "resolve_percentage v tot =
     (case py_truediv v tot of
        Inl e \<Rightarrow> Inl e
      | Inr q \<Rightarrow> Inr (round_down_nearest_ten (py_int (py_mul q (PyInt 100)))))"

definition format_y_labels :: "nat \<Rightarrow> string list" where
  "format_y_labels n =
     [''1'' @ replicate (11 + n) CHR '' '',
      ''0987654321  '' @ replicate n CHR '' '',
      replicate 11 CHR ''0'' @ replicate (1 + n) CHR '' '',
      replicate 11 CHR ''|'' @ replicate (1 + n) CHR '' '']"

definition format_blank_columm :: "nat \<Rightarrow> string list" where
  "format_blank_columm n = [replicate 11 CHR '' '' @ ''-'' @ replicate n CHR '' '']"

definition format_category_column :: "nat \<Rightarrow> string \<Rightarrow> int \<Rightarrow> string list" where
  "format_category_column n name p =
     (let top_fillers = str_times CHR '' '' (trunc (10 - of_int p / 10));
          o_fillers = str_times CHR ''o'' (trunc (of_int p / 10 + 1));
          bottom_fillers = str_times CHR '' '' (int n - int (length name))
      in [top_fillers @ o_fillers @ ''-'' @ name @ bottom_fillers]
         @ format_blank_columm n @ format_blank_columm n)"

text \<open>Mapping a function that may raise over a list: the first error wins.\<close>

fun map_result :: "('a \<Rightarrow> error + 'b) \<Rightarrow> 'a list \<Rightarrow> error + 'b list" where
  "map_result f [] = Inr []"
| "map_result f (x # xs) =
     (case f x of
        Inl e \<Rightarrow> Inl e
      | Inr y \<Rightarrow> (case map_result f xs of Inl e \<Rightarrow> Inl e | Inr ys \<Rightarrow> Inr (y # ys)))"

text \<open>\<open>string_list[j][i]\<close> raises \<open>IndexError\<close> past the end of a column.\<close>

definition cell :: "nat \<Rightarrow> string \<Rightarrow> error + char" where
  "cell i col = (if i < length col then Inr (col ! i) else Inl IndexError)"

text \<open>
  The columns \<open>string_list\<close> built by \<open>create_spend_chart\<close>, together with
  \<open>y_length\<close>.
\<close>

definition chart_columns :: "category list \<Rightarrow> error + (nat \<times> string list)" where
  "chart_columns categories =
     (case reduce max (map (\<lambda>i. length (category_name i)) categories) of
        Inl e \<Rightarrow> Inl e
      | Inr y_length \<Rightarrow>
          (let category_withdraw = map calculate_category_withdraw categories;
               total_withdraw = py_int (foldl py_add (PyFloat 0) category_withdraw)
           in case map_result (\<lambda>v. resolve_percentage v (PyInt total_withdraw)) category_withdraw of
                Inl e \<Rightarrow> Inl e
              | Inr withdraw_percents \<Rightarrow>
                  Inr (y_length,
                       format_y_labels y_length @ format_blank_columm y_length
                       @ concat (map (\<lambda>(c, p). format_category_column y_length (category_name c) p)
                                   (zip categories withdraw_percents)))))"

text \<open>
  The rows that the nested loop of \<open>create_spend_chart\<close> appends after the title, each
  without its closing newline.
\<close>

definition chart_rows :: "category list \<Rightarrow> error + string list" where
  "chart_rows categories =
     (case chart_columns categories of
        Inl e \<Rightarrow> Inl e
      | Inr (y_length, string_list) \<Rightarrow>
          map_result (\<lambda>i. map_result (cell i) string_list) [0..<y_length + 12])"

text \<open>\<open>str.rstrip()\<close> removes trailing whitespace.\<close>

definition is_space :: "char \<Rightarrow> bool" where
  "is_space ch = (ch \<in> {CHR '' '', CHR 0x09, CHR 0x0A, CHR 0x0B, CHR 0x0C, CHR 0x0D,
                        CHR 0x1C, CHR 0x1D, CHR 0x1E, CHR 0x1F, CHR 0x85, CHR 0xA0})"

definition rstrip :: "string \<Rightarrow> string" where
  "rstrip s = rev (dropWhile is_space (rev s))"

definition create_spend_chart :: "category list \<Rightarrow> error + string" where
  "create_spend_chart categories =
     (case chart_rows categories of
        Inl e \<Rightarrow> Inl e
      | Inr rows \<Rightarrow>
          Inr (rstrip (''Percentage spent by category'' @ nl @ concat (map (\<lambda>r. r @ nl) rows)) @ ''  ''))"

section \<open>Auxiliary definitions for the statements\<close>


text \<open>Stores: every reference holds the same object, or reference 0 holds one and the others another.\<close>

definition store_of :: "category \<Rightarrow> store" where
  "store_of c = (\<lambda>r. c)"

definition two_store :: "category \<Rightarrow> category \<Rightarrow> store" where
  "two_store c0 c1 = (\<lambda>r. if r = 0 then c0 else c1)"

text \<open>The script \<^verbatim>\<open>ok = x.transfer(a, y); b = x.get_balance()\<close>.\<close>

definition balance_after_transfer :: "store \<Rightarrow> nat \<Rightarrow> number \<Rightarrow> nat \<Rightarrow> error + (bool \<times> number)" where
  "balance_after_transfer h self a cat =
     (case transfer h self a cat of
        Inl e \<Rightarrow> Inl e
      | Inr (ok, h') \<Rightarrow> (case get_balance (h' self) of Inl e \<Rightarrow> Inl e | Inr b \<Rightarrow> Inr (ok, b)))"

text \<open>Example objects.\<close>

definition groceries :: category where
  "groceries = \<lparr>category_name = ''Food'',
     ledger = [\<lparr>amount = PyInt 1000, description = ''initial deposit''\<rparr>,
               \<lparr>amount = PyFloat (- 1567 / 100), description = ''groceries''\<rparr>]\<rparr>"

definition clothing :: category where
  "clothing = \<lparr>category_name = ''Clothing'', ledger = []\<rparr>"

definition overdrawn :: category where
  "overdrawn = \<lparr>category_name = ''Food'', ledger = [\<lparr>amount = PyInt (- 5), description = ''refund''\<rparr>]\<rparr>"

definition villa :: category where
  "villa = \<lparr>category_name = ''Entertainment and Leisure Activities'',
     ledger = [\<lparr>amount = PyInt 100000000, description = ''purchase of the seaside villa''\<rparr>]\<rparr>"

definition savings :: category where
  "savings = \<lparr>category_name = ''Food'', ledger = [\<lparr>amount = PyInt 1000, description = ''deposit''\<rparr>]\<rparr>"

definition diner :: category where
  "diner = \<lparr>category_name = ''Food'',
     ledger = [\<lparr>amount = PyInt 1000, description = ''deposit''\<rparr>,
               \<lparr>amount = PyInt (- 200), description = ''groceries''\<rparr>]\<rparr>"

section \<open>Facts about numbers\<close>

lemma val_py_add: "val (py_add a b) = val a + val b"
  by (cases a; cases b) simp_all

lemma val_py_mul: "val (py_mul a b) = val a * val b"
  by (cases a; cases b) simp_all

lemma val_neg: "val (py_mul a (PyInt (- 1))) = - val a"
  by (simp add: val_py_mul)

lemma val_foldl_py_add: "val (foldl py_add x xs) = val x + sum_list (map val xs)"
  by (induction xs arbitrary: x) (simp_all add: val_py_add)

lemma trunc_of_int: "trunc (of_int n) = n"
  by (simp add: trunc_def)

lemma trunc_nonneg: "0 \<le> x \<Longrightarrow> trunc x = \<lfloor>x\<rfloor>"
  by (simp add: trunc_def)

section \<open>Balance\<close>


lemma get_balance_nonempty:
  assumes "ledger c \<noteq> []"
  shows "\<exists>b. get_balance c = Inr b \<and> val b = sum_list (map (\<lambda>e. val (amount e)) (ledger c))"
proof -
  from assms obtain e es where l: "ledger c = e # es"
    by (cases "ledger c") auto
  have "get_balance c = Inr (foldl py_add (amount e) (map amount es))"
    by (simp add: get_balance_def reduce_def l)
  moreover have "val (foldl py_add (amount e) (map amount es))
      = sum_list (map (\<lambda>e. val (amount e)) (ledger c))"
    by (simp add: val_foldl_py_add l comp_def)
  ultimately show ?thesis by blast
qed

lemma get_balance_snoc:
  assumes "get_balance c = Inr b"
  shows "get_balance (c\<lparr>ledger := ledger c @ [\<lparr>amount = x, description = d\<rparr>]\<rparr>) = Inr (py_add b x)"
proof (cases "ledger c")
  case Nil
  with assms show ?thesis by (simp add: get_balance_def reduce_def)
next
  case (Cons e es)
  with assms show ?thesis by (auto simp: get_balance_def reduce_def)
qed

section \<open>Withdrawals and transfers\<close>

lemma withdraw_result:
  assumes "get_balance c = Inr b"
  shows "withdraw c a d =
           (if val a \<le> val b
            then Inr (True, c\<lparr>ledger := ledger c @ [\<lparr>amount = py_mul a (PyInt (- 1)), description = d\<rparr>]\<rparr>)
            else Inr (False, c))"
  using assms by (simp add: withdraw_def check_funds_def py_le_def)

lemma withdraw_True:
  assumes "withdraw c a d = Inr (True, c')"
  shows "\<exists>b. get_balance c = Inr b \<and> val a \<le> val b
           \<and> c' = c\<lparr>ledger := ledger c @ [\<lparr>amount = py_mul a (PyInt (- 1)), description = d\<rparr>]\<rparr>"
  using assms
  by (auto simp: withdraw_def check_funds_def py_le_def split: sum.splits if_splits)

lemma withdraw_True_balance:
  assumes "withdraw c a d = Inr (True, c')"
  shows "\<exists>b b'. get_balance c = Inr b \<and> get_balance c' = Inr b' \<and> val b' = val b - val a
            \<and> val a \<le> val b"
proof -
  from withdraw_True [OF assms] obtain b where b: "get_balance c = Inr b" "val a \<le> val b"
    and c': "c' = c\<lparr>ledger := ledger c @ [\<lparr>amount = py_mul a (PyInt (- 1)), description = d\<rparr>]\<rparr>"
    by blast
  have "get_balance c' = Inr (py_add b (py_mul a (PyInt (- 1))))"
    unfolding c' by (rule get_balance_snoc [OF b(1)])
  moreover have "val (py_add b (py_mul a (PyInt (- 1)))) = val b - val a"
    by (simp add: val_py_add val_neg)
  ultimately show ?thesis using b by auto
qed

lemma transfer_result:
  assumes "get_balance (h s) = Inr b"
  shows "transfer h s a t =
     (if val a \<le> val b
      then Inr (True,
        (h(s := (h s)\<lparr>ledger := ledger (h s) @
              [\<lparr>amount = py_mul a (PyInt (- 1)), description = ''Transfer to '' @ category_name (h t)\<rparr>]\<rparr>))
        (t := deposit
           ((h(s := (h s)\<lparr>ledger := ledger (h s) @
              [\<lparr>amount = py_mul a (PyInt (- 1)), description = ''Transfer to '' @ category_name (h t)\<rparr>]\<rparr>)) t)
           a (''Transfer from '' @ category_name (h s))))
      else Inr (False, h))"
  by (simp add: transfer_def withdraw_result [OF assms] Let_def)


lemma groceries_balance: "get_balance groceries = Inr (PyFloat (98433 / 100))"
  by (simp add: groceries_def get_balance_def reduce_def)

lemma withdraw_groceries:
  "withdraw groceries (PyInt 984) ''rent'' =
     Inr (True, groceries\<lparr>ledger := ledger groceries @ [\<lparr>amount = PyInt (- 984), description = ''rent''\<rparr>]\<rparr>)"
  by (simp add: withdraw_result [OF groceries_balance])

lemma transfer_groceries:
  "transfer (two_store groceries clothing) 0 (PyInt 50) 1 =
     Inr (True, (two_store groceries clothing)
       (0 := groceries\<lparr>ledger := ledger groceries @ [\<lparr>amount = PyInt (- 50), description = ''Transfer to Clothing''\<rparr>]\<rparr>,
        1 := clothing\<lparr>ledger := [\<lparr>amount = PyInt 50, description = ''Transfer from Food''\<rparr>]\<rparr>))"
proof -
  have b0: "get_balance (two_store groceries clothing 0) = Inr (PyFloat (98433 / 100))"
    by (simp add: two_store_def groceries_balance)
  show ?thesis
    by (simp add: transfer_result [of "two_store groceries clothing" 0 "PyFloat (98433 / 100)"] b0 deposit_def)
       (simp add: two_store_def groceries_def clothing_def)
qed







text \<open>
  C3, as the code has it.  A \<open>withdraw\<close> that returns true leaves a balance that is not
  negative, whatever the balance was before, and so does a \<open>transfer\<close> to another
  object.
\<close>

theorem withdraw_transfer_nonnegative:
  "(withdraw c a d = Inr (True, c') \<longrightarrow> (\<exists>b'. get_balance c' = Inr b' \<and> 0 \<le> val b'))
   \<and> (t \<noteq> s \<and> transfer h s x t = Inr (True, h') \<longrightarrow>
        (\<exists>b'. get_balance (h' s) = Inr b' \<and> 0 \<le> val b'))"
proof (intro conjI impI)
  assume "withdraw c a d = Inr (True, c')"
  from withdraw_True_balance [OF this] show "\<exists>b'. get_balance c' = Inr b' \<and> 0 \<le> val b'"
    by auto
next
  assume a: "t \<noteq> s \<and> transfer h s x t = Inr (True, h')"
  then obtain c1 where w: "withdraw (h s) x (''Transfer to '' @ category_name (h t)) = Inr (True, c1)"
    and h': "h' s = c1"
    by (auto simp: transfer_def Let_def split: sum.splits prod.splits if_splits)
  from withdraw_True_balance [OF w] h' show "\<exists>b'. get_balance (h' s) = Inr b' \<and> 0 \<le> val b'"
    by auto
qed

theorem withdraw_transfer_nonnegative_witness:
  "withdraw groceries (PyInt 984) ''rent'' =
     Inr (True, groceries\<lparr>ledger := ledger groceries @ [\<lparr>amount = PyInt (- 984), description = ''rent''\<rparr>]\<rparr>)
   \<and> (\<exists>b'. get_balance (groceries\<lparr>ledger := ledger groceries @ [\<lparr>amount = PyInt (- 984), description = ''rent''\<rparr>]\<rparr>)
       = Inr b' \<and> 0 \<le> val b')
   \<and> (1::nat) \<noteq> 0
   \<and> transfer (two_store groceries clothing) 0 (PyInt 50) 1 =
     Inr (True, (two_store groceries clothing)
       (0 := groceries\<lparr>ledger := ledger groceries @ [\<lparr>amount = PyInt (- 50), description = ''Transfer to Clothing''\<rparr>]\<rparr>,
        1 := clothing\<lparr>ledger := [\<lparr>amount = PyInt 50, description = ''Transfer from Food''\<rparr>]\<rparr>))
   \<and> (\<exists>b'. get_balance (groceries\<lparr>ledger := ledger groceries @ [\<lparr>amount = PyInt (- 50), description = ''Transfer to Clothing''\<rparr>]\<rparr>)
       = Inr b' \<and> 0 \<le> val b')"
  using withdraw_transfer_nonnegative [where c = groceries and a = "PyInt 984" and d = "''rent''"
      and c' = "groceries\<lparr>ledger := ledger groceries @ [\<lparr>amount = PyInt (- 984), description = ''rent''\<rparr>]\<rparr>"
      and t = 1 and s = 0 and h = "two_store groceries clothing" and x = "PyInt 50"
      and h' = "(two_store groceries clothing)
       (0 := groceries\<lparr>ledger := ledger groceries @ [\<lparr>amount = PyInt (- 50), description = ''Transfer to Clothing''\<rparr>]\<rparr>,
        1 := clothing\<lparr>ledger := [\<lparr>amount = PyInt 50, description = ''Transfer from Food''\<rparr>]\<rparr>)"]
    withdraw_groceries transfer_groceries
  by simp

text \<open>
  C3 as stated fails for a transfer of an object to itself: the withdrawal and the deposit
  cancel, so a negative balance stays negative although the call returns true.
\<close>

theorem self_transfer_negative_counterexample:
  "balance_after_transfer (store_of overdrawn) 0 (PyInt (- 5)) 0 = Inr (True, PyInt (- 5))
   \<and> val (PyInt (- 5)) < 0"
  by (simp add: balance_after_transfer_def store_of_def overdrawn_def transfer_def
      withdraw_def check_funds_def py_le_def get_balance_def reduce_def deposit_def)

text \<open>
  C5 as stated fails: a negative amount does not pass the funds check when the balance is
  smaller still, and on an empty ledger the check raises.
\<close>

theorem negative_withdraw_counterexample:
  "val (PyInt (- 1)) < 0
   \<and> check_funds overdrawn (PyInt (- 1)) = Inr False
   \<and> withdraw overdrawn (PyInt (- 1)) ''fee'' = Inr (False, overdrawn)
   \<and> check_funds (Category ''Auto'') (PyInt (- 1)) = Inl TypeError"
  by (simp add: overdrawn_def Category_def withdraw_def check_funds_def py_le_def get_balance_def reduce_def)

text \<open>
  C5, as the code has it.  When the balance is defined and at least the amount (in
  particular whenever it is not negative), a strictly negative amount passes the funds
  check, and \<open>withdraw\<close> appends an entry with the strictly positive amount
  \<open>-amount\<close> and returns true.
\<close>

theorem negative_withdraw_passes:
  assumes "val a < 0" and "get_balance c = Inr b" and "val a \<le> val b"
  shows "check_funds c a = Inr True
         \<and> withdraw c a d = Inr (True, c\<lparr>ledger := ledger c @ [\<lparr>amount = py_mul a (PyInt (- 1)), description = d\<rparr>]\<rparr>)
         \<and> 0 < val (py_mul a (PyInt (- 1)))"
  using assms by (simp add: withdraw_result [of c b] check_funds_def py_le_def val_neg)

theorem negative_withdraw_passes_witness:
  "val (PyInt (- 20)) < 0 \<and> get_balance groceries = Inr (PyFloat (98433 / 100))
   \<and> val (PyInt (- 20)) \<le> val (PyFloat (98433 / 100))
   \<and> withdraw groceries (PyInt (- 20)) ''refund'' =
        Inr (True, groceries\<lparr>ledger := ledger groceries @ [\<lparr>amount = PyInt 20, description = ''refund''\<rparr>]\<rparr>)"
  using negative_withdraw_passes [of "PyInt (- 20)" groceries "PyFloat (98433 / 100)" "''refund''"]
  by (simp add: groceries_balance)

section \<open>Percentages\<close>

lemma floor_rat_numeral: "\<lfloor>(numeral a :: rat) / numeral b\<rfloor> = numeral a div numeral b"
  by (metis floor_divide_of_int_eq of_int_numeral)

lemma floor_rat_one_numeral: "\<lfloor>(1 :: rat) / numeral b\<rfloor> = 1 div numeral b"
  by (metis floor_divide_of_int_eq of_int_numeral of_int_1)

lemma round_down_nearest_ten_eq: "round_down_nearest_ten v = 10 * \<lfloor>(of_int v :: rat) / 10\<rfloor>"
proof -
  have "trunc (of_int \<lfloor>(of_int v :: rat) / 10\<rfloor> * 10) = trunc (of_int (\<lfloor>(of_int v :: rat) / 10\<rfloor> * 10))"
    by simp
  also have "\<dots> = \<lfloor>(of_int v :: rat) / 10\<rfloor> * 10"
    by (rule trunc_of_int)
  finally show ?thesis
    by (simp add: round_down_nearest_ten_def math_floor_def)
qed

lemma round_down_nearest_ten_div: "round_down_nearest_ten v = 10 * (v div 10)"
proof -
  have "\<lfloor>(of_int v :: rat) / of_int 10\<rfloor> = v div 10"
    by (rule floor_divide_of_int_eq)
  then show ?thesis by (simp add: round_down_nearest_ten_eq)
qed

lemma resolve_percentage_eq:
  assumes "0 \<le> val v" and "0 < val t"
  shows "resolve_percentage v t = Inr (10 * \<lfloor>(of_int \<lfloor>val v / val t * 100\<rfloor> :: rat) / 10\<rfloor>)"
proof -
  have nz: "val t \<noteq> 0" using assms(2) by simp
  have "0 \<le> val v / val t * 100" using assms by simp
  then have "trunc (val v / val t * 100) = \<lfloor>val v / val t * 100\<rfloor>"
    by (rule trunc_nonneg)
  then show ?thesis
    using nz by (simp add: resolve_percentage_def py_truediv_def round_down_nearest_ten_eq)
qed



section \<open>The chart\<close>

text \<open>A total that truncates to 0 makes the first percentage division raise.\<close>

lemma zero_total_fails:
  assumes "categories \<noteq> []"
    and "py_int (foldl py_add (PyFloat 0) (map calculate_category_withdraw categories)) = 0"
  shows "create_spend_chart categories = Inl ZeroDivisionError"
proof -
  from assms(1) obtain c cs where cs: "categories = c # cs"
    by (cases categories) auto
  have "resolve_percentage v (PyInt 0) = Inl ZeroDivisionError" for v
    by (simp add: resolve_percentage_def py_truediv_def)
  then show ?thesis
    using assms(2)
    by (simp add: create_spend_chart_def chart_rows_def chart_columns_def reduce_def Let_def cs)
qed

text \<open>
  C10.  A category holding a deposit of 1.0 and a successful withdrawal of 0.5 has the
  strictly positive withdrawal total 0.5, yet \<open>create_spend_chart\<close> on it fails with a
  division by zero: the total is truncated to the integer 0 before the division.
\<close>

theorem truncated_total_division_by_zero:
  "withdraw (deposit (Category ''Food'') (PyFloat 1) '''') (PyFloat (1 / 2)) '''' =
     Inr (True, \<lparr>category_name = ''Food'',
                 ledger = [\<lparr>amount = PyFloat 1, description = ''''\<rparr>,
                           \<lparr>amount = PyFloat (- (1 / 2)), description = ''''\<rparr>]\<rparr>)
   \<and> calculate_category_withdraw
        \<lparr>category_name = ''Food'',
         ledger = [\<lparr>amount = PyFloat 1, description = ''''\<rparr>,
                   \<lparr>amount = PyFloat (- (1 / 2)), description = ''''\<rparr>]\<rparr> = PyFloat (1 / 2)
   \<and> 0 < val (PyFloat (1 / 2))
   \<and> py_int (PyFloat (1 / 2)) = 0
   \<and> create_spend_chart
        [\<lparr>category_name = ''Food'',
          ledger = [\<lparr>amount = PyFloat 1, description = ''''\<rparr>,
                    \<lparr>amount = PyFloat (- (1 / 2)), description = ''''\<rparr>]\<rparr>] = Inl ZeroDivisionError"
  by (simp add: withdraw_def check_funds_def get_balance_def reduce_def deposit_def Category_def
      py_le_def py_lt_def calculate_category_withdraw_def create_spend_chart_def chart_rows_def
      chart_columns_def resolve_percentage_def py_truediv_def trunc_def Let_def floor_rat_one_numeral)

section \<open>Rendering a Category\<close>

lemma trunc_half:
  "trunc (of_int j / 2) = (if j < 0 then - ((- j) div 2) else j div 2)"
proof -
  have f: "\<lfloor>(of_int k :: rat) / of_int 2\<rfloor> = k div 2" for k
    by (rule floor_divide_of_int_eq)
  have "\<lceil>(of_int j :: rat) / 2\<rceil> = - \<lfloor>(of_int (- j) :: rat) / of_int 2\<rfloor>"
    by (simp add: ceiling_def)
  then have c: "\<lceil>(of_int j :: rat) / 2\<rceil> = - ((- j) div 2)"
    by (simp only: f)
  have "((of_int j :: rat) / 2 < 0) = (j < 0)"
    by simp
  then show ?thesis
    using c f [of j] by (simp add: trunc_def)
qed

lemma header_multipliers:
  "trunc ((30 - of_nat (length name)) / 2)
     = (if 30 < length name then - ((int (length name) - 30) div 2) else (30 - int (length name)) div 2)"
proof -
  have "(30 - of_nat (length name) :: rat) = of_int (30 - int (length name))"
    by simp
  then show ?thesis
    by (simp only: trunc_half) simp
qed

lemma format_header_short:
  assumes "length name \<le> 30"
  shows "format_header name =
           replicate ((30 - length name) div 2) CHR ''*'' @ name
           @ replicate (30 - length name - (30 - length name) div 2) CHR ''*''"
proof -
  have a: "nat ((30 - int (length name)) div 2) = (30 - length name) div 2"
    using assms by (simp add: nat_div_distrib nat_diff_distrib')
  have b: "nat (30 - int (length name) - (30 - int (length name)) div 2)
             = 30 - length name - (30 - length name) div 2"
    using assms by (simp add: nat_diff_distrib' nat_div_distrib)
  show ?thesis
    using assms by (simp add: format_header_def header_multipliers str_times_def Let_def a b)
qed

lemma length_format_header: "length (format_header name) = max 30 (length name)"
proof (cases "length name \<le> 30")
  case True
  then show ?thesis by (simp add: format_header_short)
next
  case False
  then have "format_header name = name"
    by (simp add: format_header_def header_multipliers str_times_def Let_def)
  with False show ?thesis by simp
qed

lemma format_ledger_entry_eq:
  "format_ledger_entry e =
     take 23 (description e)
     @ replicate (30 - length (format_2f (amount e)) - length (take 23 (description e))) CHR '' ''
     @ format_2f (amount e)"
proof -
  have "nat (30 - int (length (format_2f (amount e))) - int (length (take 23 (description e))))
          = 30 - length (format_2f (amount e)) - length (take 23 (description e))"
    by (simp add: nat_diff_distrib')
  then show ?thesis
    by (simp add: format_ledger_entry_def str_times_def Let_def)
qed

lemma length_format_ledger_entry:
  "length (format_ledger_entry e) = max 30 (length (format_2f (amount e)) + min 23 (length (description e)))"
  by (simp add: format_ledger_entry_eq)

lemma foldl_append_lines:
  "foldl (\<lambda>r e. r @ f e @ sep) acc es = acc @ concat (map (\<lambda>e. f e @ sep) es)"
  by (induction es arbitrary: acc) simp_all

lemma category_str_eq:
  assumes "get_balance c = Inr b"
  shows "category_str R c =
     Inr (format_header (category_name c) @ nl
          @ concat (map (\<lambda>e. format_ledger_entry e @ nl) (ledger c)) @ format_total R b)"
  using assms by (simp add: category_str_def foldl_append_lines [of format_ledger_entry nl])

lemma replicate_numeral: "replicate (numeral k) x = x # replicate (pred_numeral k) x"
  by (simp add: numeral_eq_Suc)

lemma format_2f_1000: "format_2f (PyInt 1000) = ''1000.00''"
  by (simp add: format_2f_def round_half_even_def digit_char_def Let_def)

lemma savings_balance: "get_balance savings = Inr (PyInt 1000)"
  by (simp add: savings_def get_balance_def reduce_def)

lemma savings_str:
  "category_str R savings =
     Inr (''*************Food*************'' @ nl @ ''deposit                1000.00'' @ nl @ ''Total: 1000'')"
proof -
  have h: "format_header ''Food'' = ''*************Food*************''"
    by (simp add: format_header_short replicate_numeral)
  have e: "format_ledger_entry \<lparr>amount = PyInt 1000, description = ''deposit''\<rparr>
             = ''deposit                1000.00''"
    by (simp add: format_ledger_entry_eq format_2f_1000 replicate_numeral)
  have t: "format_total R (PyInt 1000) = ''Total: 1000''"
    by (simp add: format_total_def digit_char_def)
  show ?thesis
    by (simp only: category_str_eq [OF savings_balance]) (simp add: savings_def h e t)
qed

lemma format_2f_villa: "format_2f (PyInt 100000000) = ''100000000.00''"
  by (simp add: format_2f_def round_half_even_def digit_char_def Let_def)

text \<open>
  C6, as the code has it.  For a Category with a non-empty ledger the rendering is the
  header, one line per entry and the total line.  The header has
  \<open>max 30 (len name)\<close> characters: for a name of at most 30 characters it is the name
  between \<open>(30 - len name) div 2\<close> asterisks on the left and the remaining asterisks on
  the right, 30 characters in all.  An entry line is the description cut to 23 characters,
  \<open>30 - len amount - len description\<close> spaces and the amount with two decimals; it has
  \<open>max 30 (len amount + len description)\<close> characters, so 30 whenever amount and cut
  description fit into 30 characters.
\<close>

theorem category_str_line_lengths:
  assumes "ledger c \<noteq> []"
  shows "\<exists>b. get_balance c = Inr b
     \<and> category_str R c =
         Inr (format_header (category_name c) @ nl
              @ concat (map (\<lambda>e. format_ledger_entry e @ nl) (ledger c)) @ format_total R b)
     \<and> length (format_header (category_name c)) = max 30 (length (category_name c))
     \<and> (length (category_name c) \<le> 30 \<longrightarrow>
          format_header (category_name c) =
            replicate ((30 - length (category_name c)) div 2) CHR ''*'' @ category_name c
            @ replicate (30 - length (category_name c) - (30 - length (category_name c)) div 2) CHR ''*'')
     \<and> (\<forall>e \<in> set (ledger c).
          format_ledger_entry e =
            take 23 (description e)
            @ replicate (30 - length (format_2f (amount e)) - length (take 23 (description e))) CHR '' ''
            @ format_2f (amount e)
          \<and> length (format_ledger_entry e)
              = max 30 (length (format_2f (amount e)) + min 23 (length (description e))))"
proof -
  from get_balance_nonempty [OF assms] obtain b where b: "get_balance c = Inr b"
    by blast
  show ?thesis
  proof (intro exI [of _ b] conjI ballI impI)
    show "get_balance c = Inr b" by (rule b)
    show "category_str R c =
         Inr (format_header (category_name c) @ nl
              @ concat (map (\<lambda>e. format_ledger_entry e @ nl) (ledger c)) @ format_total R b)"
      by (rule category_str_eq [OF b])
    show "length (format_header (category_name c)) = max 30 (length (category_name c))"
      by (rule length_format_header)
  next
    assume "length (category_name c) \<le> 30"
    then show "format_header (category_name c) =
            replicate ((30 - length (category_name c)) div 2) CHR ''*'' @ category_name c
            @ replicate (30 - length (category_name c) - (30 - length (category_name c)) div 2) CHR ''*''"
      by (rule format_header_short)
  next
    fix e
    show "format_ledger_entry e =
            take 23 (description e)
            @ replicate (30 - length (format_2f (amount e)) - length (take 23 (description e))) CHR '' ''
            @ format_2f (amount e)"
      by (rule format_ledger_entry_eq)
    show "length (format_ledger_entry e)
              = max 30 (length (format_2f (amount e)) + min 23 (length (description e)))"
      by (rule length_format_ledger_entry)
  qed
qed

theorem category_str_line_lengths_witness:
  "ledger savings \<noteq> []
   \<and> length (format_header (category_name savings)) = 30
   \<and> length (format_ledger_entry \<lparr>amount = PyInt 1000, description = ''deposit''\<rparr>) = 30"
proof -
  have ne: "ledger savings \<noteq> []" by (simp add: savings_def)
  from category_str_line_lengths [OF ne]
  have h: "length (format_header (category_name savings)) = max 30 (length (category_name savings))"
    and l: "\<forall>e \<in> set (ledger savings). length (format_ledger_entry e)
              = max 30 (length (format_2f (amount e)) + min 23 (length (description e)))"
    by blast+
  note f = format_2f_1000
  from h have h': "length (format_header (category_name savings)) = 30"
    by (simp add: savings_def)
  from l f have "length (format_ledger_entry \<lparr>amount = PyInt 1000, description = ''deposit''\<rparr>) = 30"
    by (simp add: savings_def)
  with ne h' show ?thesis by blast
qed

text \<open>
  C6 as stated fails: a name longer than 30 characters is rendered without asterisks and
  keeps its length, and an amount string that does not fit beside the cut description gets
  no padding and makes the line longer than 30 characters.
\<close>

theorem long_lines_counterexample:
  "ledger villa \<noteq> []
   \<and> format_header (category_name villa) = ''Entertainment and Leisure Activities''
   \<and> length (format_header (category_name villa)) = 36
   \<and> map format_ledger_entry (ledger villa) = [''purchase of the seaside100000000.00'']
   \<and> map (length \<circ> format_ledger_entry) (ledger villa) = [35]"
proof -
  have h: "format_header ''Entertainment and Leisure Activities'' = ''Entertainment and Leisure Activities''"
    by (simp add: format_header_def trunc_def str_times_def Let_def)
  have e: "format_ledger_entry \<lparr>amount = PyInt 100000000, description = ''purchase of the seaside villa''\<rparr>
             = ''purchase of the seaside100000000.00''"
    by (simp add: format_ledger_entry_eq format_2f_villa)
  show ?thesis
    by (simp add: villa_def h e)
qed

text \<open>
  C7 at a ledger holding one deposit of the int 1000: the balance is the int 1000, its
  two-decimal form is \<open>1000.00\<close>, and the last line of the rendering is
  \<open>Total: 1000\<close>, the balance printed as it is.
\<close>

theorem total_line_unformatted:
  "category_str float_repr savings =
     Inr (''*************Food*************'' @ nl @ ''deposit                1000.00'' @ nl @ ''Total: 1000'')
   \<and> get_balance savings = Inr (PyInt 1000)
   \<and> format_2f (PyInt 1000) = ''1000.00''"
  by (simp only: savings_str savings_balance format_2f_1000)

section \<open>The grid of the chart\<close>

lemma map_result_length: "map_result f xs = Inr ys \<Longrightarrow> length ys = length xs"
  by (induction xs arbitrary: ys) (auto split: sum.splits)

lemma map_result_elems:
  "map_result f xs = Inr ys \<Longrightarrow> y \<in> set ys \<Longrightarrow> \<exists>x \<in> set xs. f x = Inr y"
  by (induction xs arbitrary: ys) (auto split: sum.splits)

lemma foldl_max_Max: "foldl max (l :: nat) ls = Max (set (l # ls))"
proof (induction ls arbitrary: l)
  case Nil
  show ?case by simp
next
  case (Cons a ls)
  have "foldl max l (a # ls) = Max (set (max l a # ls))"
    by (simp add: Cons.IH)
  also have "\<dots> = Max (set (l # a # ls))"
    by (cases "ls = []") (auto simp: max.assoc)
  finally show ?case .
qed

lemma reduce_max_Max:
  "reduce max (xs :: nat list) = Inr y \<Longrightarrow> xs \<noteq> [] \<and> y = Max (set xs)"
  by (cases xs) (auto simp: reduce_def foldl_max_Max simp del: set_simps foldl_Cons)

lemma length_concat_columns:
  "length (concat (map (\<lambda>(c, p). format_category_column n (category_name c) p) zs)) = 3 * length zs"
  by (induction zs) (auto simp: format_category_column_def format_blank_columm_def Let_def)

lemma chart_columns_shape:
  assumes "chart_columns cats = Inr (y, cols)"
  shows "cats \<noteq> [] \<and> y = Max (set (map (\<lambda>c. length (category_name c)) cats))
         \<and> length cols = 5 + 3 * length cats"
proof -
  from assms obtain ps where
    y: "reduce max (map (\<lambda>i. length (category_name i)) cats) = Inr y"
    and ps: "map_result (\<lambda>v. resolve_percentage v
               (PyInt (py_int (foldl py_add (PyFloat 0) (map calculate_category_withdraw cats)))))
               (map calculate_category_withdraw cats) = Inr ps"
    and cols: "cols = format_y_labels y @ format_blank_columm y
                 @ concat (map (\<lambda>(c, p). format_category_column y (category_name c) p) (zip cats ps))"
    by (auto simp: chart_columns_def Let_def split: sum.splits)
  from reduce_max_Max [OF y] have ne: "cats \<noteq> []"
    and ymax: "y = Max (set (map (\<lambda>c. length (category_name c)) cats))"
    by auto
  from map_result_length [OF ps] have "length ps = length cats"
    by simp
  then have "length cols = 5 + 3 * length cats"
    by (simp add: cols length_concat_columns format_y_labels_def format_blank_columm_def)
  with ne ymax show ?thesis by blast
qed

lemma chart_rows_shape:
  assumes "chart_rows cats = Inr rows"
  shows "length rows = 12 + Max (set (map (\<lambda>c. length (category_name c)) cats))
         \<and> (\<forall>r \<in> set rows. length r = 5 + 3 * length cats)"
proof -
  from assms obtain y cols where cc: "chart_columns cats = Inr (y, cols)"
    and rows: "map_result (\<lambda>i. map_result (cell i) cols) [0..<y + 12] = Inr rows"
    by (auto simp: chart_rows_def split: sum.splits prod.splits)
  from chart_columns_shape [OF cc] have y: "y = Max (set (map (\<lambda>c. length (category_name c)) cats))"
    and w: "length cols = 5 + 3 * length cats"
    by auto
  from map_result_length [OF rows] have h: "length rows = 12 + y"
    by simp
  have "length r = 5 + 3 * length cats" if "r \<in> set rows" for r
  proof -
    from map_result_elems [OF rows that] obtain i where "map_result (cell i) cols = Inr r"
      by blast
    from map_result_length [OF this] w show ?thesis by simp
  qed
  with h y show ?thesis by blast
qed

lemma diner_withdraw: "calculate_category_withdraw diner = PyFloat 200"
  by (simp add: calculate_category_withdraw_def diner_def py_lt_def)

lemma diner_percentage: "resolve_percentage (PyFloat 200) (PyInt 200) = Inr 100"
  using resolve_percentage_eq [of "PyFloat 200" "PyInt 200"]
  by (simp add: floor_rat_numeral)

lemma diner_columns:
  "chart_columns [diner] =
     Inr (4, [''1               '', ''0987654321      '', ''00000000000     '',
              ''|||||||||||     '', ''           -    '', ''ooooooooooo-Food'',
              ''           -    '', ''           -    ''])"
proof -
  have n: "category_name diner = ''Food''"
    by (simp add: diner_def)
  have t: "trunc 200 = 200" "trunc 0 = 0" "trunc 11 = 11"
    by (simp_all add: trunc_def)
  show ?thesis
    by (simp add: chart_columns_def reduce_def diner_withdraw diner_percentage n t Let_def
        format_y_labels_def format_blank_columm_def format_category_column_def str_times_def
        replicate_numeral)
qed

lemma diner_rows:
  "chart_rows [diner] =
     Inr [''100| o  '', '' 90| o  '', '' 80| o  '', '' 70| o  '', '' 60| o  '',
          '' 50| o  '', '' 40| o  '', '' 30| o  '', '' 20| o  '', '' 10| o  '',
          ''  0| o  '', ''    ----'', ''     F  '', ''     o  '', ''     o  '',
          ''     d  '']"
  by (simp add: chart_rows_def diner_columns cell_def eval_nat_numeral)

text \<open>
  C9, as the code has it.  When \<open>create_spend_chart\<close> succeeds on a non-empty
  collection, the nested loop has produced \<open>12 + y_length\<close> rows, \<open>y_length\<close> being
  the length of the longest category name, and every row has \<open>5 + 3 * n\<close> characters
  for \<open>n\<close> categories; the result is the title line followed by these rows, stripped of
  trailing whitespace and closed by two spaces.
\<close>

theorem chart_grid_dimensions:
  assumes "categories \<noteq> []" and "create_spend_chart categories = Inr s"
  shows "\<exists>rows. chart_rows categories = Inr rows
           \<and> s = rstrip (''Percentage spent by category'' @ nl @ concat (map (\<lambda>r. r @ nl) rows)) @ ''  ''
           \<and> length rows = 12 + Max (set (map (\<lambda>c. length (category_name c)) categories))
           \<and> (\<forall>r \<in> set rows. length r = 5 + 3 * length categories)"
proof -
  from assms(2) obtain rows where rows: "chart_rows categories = Inr rows"
    and s: "s = rstrip (''Percentage spent by category'' @ nl @ concat (map (\<lambda>r. r @ nl) rows)) @ ''  ''"
    by (auto simp: create_spend_chart_def split: sum.splits)
  from chart_rows_shape [OF rows] rows s show ?thesis by blast
qed

theorem chart_grid_dimensions_witness:
  "[diner] \<noteq> [] \<and> (\<exists>s. create_spend_chart [diner] = Inr s)
   \<and> (\<exists>rows. chart_rows [diner] = Inr rows \<and> length rows = 16 \<and> length (hd rows) = 8)"
proof -
  obtain s where s: "create_spend_chart [diner] = Inr s"
    by (simp add: create_spend_chart_def diner_rows)
  have ne: "[diner] \<noteq> []" by simp
  from chart_grid_dimensions [OF ne s] obtain rows where rows: "chart_rows [diner] = Inr rows"
    and h: "length rows = 12 + Max (set (map (\<lambda>c. length (category_name c)) [diner]))"
    and w: "\<forall>r \<in> set rows. length r = 5 + 3 * length [diner]"
    by blast
  from h have h16: "length rows = 16"
    by (simp add: diner_def)
  then have "hd rows \<in> set rows"
    by (cases rows) auto
  with w have "length (hd rows) = 8"
    by auto
  with s ne rows h16 show ?thesis by blast
qed

text \<open>
  C9 as stated fails in the height: for the single category \<open>Food\<close> the grid has 16
  rows (eleven bar rows, the separator and four name rows), not \<open>11 + 4\<close>.
\<close>

theorem chart_height_counterexample:
  "chart_rows [diner] =
     Inr [''100| o  '', '' 90| o  '', '' 80| o  '', '' 70| o  '', '' 60| o  '',
          '' 50| o  '', '' 40| o  '', '' 30| o  '', '' 20| o  '', '' 10| o  '',
          ''  0| o  '', ''    ----'', ''     F  '', ''     o  '', ''     o  '',
          ''     d  '']
   \<and> map_sum id length (chart_rows [diner]) = Inr 16
   \<and> length (category_name diner) = 4
   \<and> 11 + length (category_name diner) = 15"
  by (simp add: diner_rows) (simp add: diner_def)

end
